theory Spec2Isabelle
  imports Main "HOL-Library.Word"
begin

section \<open>Flow control of quic-go: \<open>flowcontrol/flow_controller.go\<close>\<close>

text \<open>
  The flow controller keeps the send-side and receive-side byte accounting of one
  stream, or of the whole connection (stream id 0). A method of the Go type that
  assigns to a field is a function from the controller to the updated controller,
  paired with the result when the method returns one; a method whose body assigns to
  no field is a function from the controller to its result.
\<close>

subsection \<open>Types of the collaborating packages\<close>

text \<open>
  \<open>protocol.ByteCount\<close> is Go's \<open>uint64\<close> and \<open>protocol.StreamID\<close> is \<open>uint32\<close>:
  on words \<open>+\<close>, \<open>-\<close> and \<open>*\<close> wrap around, \<open>div\<close> is the unsigned division and
  \<open><\<close>, \<open>\<le>\<close> compare the unsigned values, as Go does.
\<close>

type_synonym ByteCount = "64 word"
type_synonym StreamID = "32 word"

text \<open>
  \<open>time.Duration\<close> of Go's standard library is an \<open>int64\<close> count of nanoseconds:
  a 64-bit word read as two's complement, compared with \<open>word_sle\<close>. A \<open>time.Time\<close>
  is an instant; it is modelled by its distance in nanoseconds from the zero instant
  (January 1 of year 1, 00:00 UTC), which \<open>IsZero\<close> recognises. \<open>Sub\<close> saturates at
  the least and the greatest duration, as the library documents.
\<close>

type_synonym Duration = "64 word"
type_synonym Time = int

definition maxDuration :: Duration where
  "maxDuration = 0x7FFFFFFFFFFFFFFF"

definition minDuration :: Duration where
  "minDuration = 0x8000000000000000"

definition IsZero :: "Time \<Rightarrow> bool" where
  "IsZero t = (t = 0)"

definition Sub :: "Time \<Rightarrow> Time \<Rightarrow> Duration" where
  "Sub t u =
     (if t - u > 9223372036854775807 then maxDuration
      else if t - u < - 9223372036854775808 then minDuration
      else word_of_int (t - u))"

text \<open>
  Modelled from the spec: the interface \<open>handshake.ConnectionParametersManager\<close>
  (the spec's ParametersSource), of which the controller calls six getters. Each field
  is the value the getter of that name returns.
\<close>

record ConnectionParametersManager =
  GetReceiveConnectionFlowControlWindow :: ByteCount
  GetMaxReceiveConnectionFlowControlWindow :: ByteCount
  GetReceiveStreamFlowControlWindow :: ByteCount
  GetMaxReceiveStreamFlowControlWindow :: ByteCount
  GetSendConnectionFlowControlWindow :: ByteCount
  GetSendStreamFlowControlWindow :: ByteCount

text \<open>
  Modelled from the spec: \<open>congestion.RTTStats\<close> (the spec's RTTEstimator), of which
  the controller calls \<open>SmoothedRTT\<close>, a duration that is zero before any sample.
\<close>

record RTTStats =
  SmoothedRTT :: Duration

text \<open>
  Modelled from the spec: \<open>utils.MinByteCount\<close>, the smaller of two byte counts.
\<close>

definition MinByteCount :: "ByteCount \<Rightarrow> ByteCount \<Rightarrow> ByteCount" where
  "MinByteCount a b = (if a < b then a else b)"

subsection \<open>The controller\<close>

record flowController =
  streamID :: StreamID
  connectionParameters :: ConnectionParametersManager
  rttStats :: RTTStats
  bytesSent :: ByteCount
  sendWindow :: ByteCount
  lastWindowUpdateTime :: Time
  bytesRead :: ByteCount
  highestReceived :: ByteCount
  receiveWindow :: ByteCount
  receiveWindowIncrement :: ByteCount
  maxReceiveWindowIncrement :: ByteCount

datatype error = ErrReceivedSmallerByteOffset

text \<open>
  \<open>newFlowController\<close>: the struct literal sets three fields and leaves the others at
  their zero values; the receive side is then seeded from the parameters of the scope.
\<close>

definition newFlowController ::
  "StreamID \<Rightarrow> ConnectionParametersManager \<Rightarrow> RTTStats \<Rightarrow> flowController" where
  "newFlowController sid params rtts =
     (let fc = \<lparr>streamID = sid, connectionParameters = params, rttStats = rtts,
                bytesSent = 0, sendWindow = 0, lastWindowUpdateTime = 0,
                bytesRead = 0, highestReceived = 0, receiveWindow = 0,
                receiveWindowIncrement = 0, maxReceiveWindowIncrement = 0\<rparr>
      in if sid = 0 then
           (let fc1 = fc\<lparr>receiveWindow := GetReceiveConnectionFlowControlWindow params\<rparr>;
                fc2 = fc1\<lparr>receiveWindowIncrement := receiveWindow fc1\<rparr>
            in fc2\<lparr>maxReceiveWindowIncrement :=
                      GetMaxReceiveConnectionFlowControlWindow params\<rparr>)
         else
           (let fc1 = fc\<lparr>receiveWindow := GetReceiveStreamFlowControlWindow params\<rparr>;
                fc2 = fc1\<lparr>receiveWindowIncrement := receiveWindow fc1\<rparr>
            in fc2\<lparr>maxReceiveWindowIncrement :=
                      GetMaxReceiveStreamFlowControlWindow params\<rparr>))"

definition getSendWindow :: "flowController \<Rightarrow> ByteCount" where
  "getSendWindow c =
     (if sendWindow c = 0 then
        (if streamID c = 0
         then GetSendConnectionFlowControlWindow (connectionParameters c)
         else GetSendStreamFlowControlWindow (connectionParameters c))
      else sendWindow c)"

definition AddBytesSent :: "ByteCount \<Rightarrow> flowController \<Rightarrow> flowController" where
  "AddBytesSent n c = c\<lparr>bytesSent := bytesSent c + n\<rparr>"

definition UpdateSendWindow :: "ByteCount \<Rightarrow> flowController \<Rightarrow> bool \<times> flowController" where
  "UpdateSendWindow newOffset c =
     (if newOffset > sendWindow c then (True, c\<lparr>sendWindow := newOffset\<rparr>)
      else (False, c))"

definition SendWindowSize :: "flowController \<Rightarrow> ByteCount" where
  "SendWindowSize c =
     (let sw = getSendWindow c
      in if bytesSent c > sw then 0 else sw - bytesSent c)"

definition SendWindowOffset :: "flowController \<Rightarrow> ByteCount" where
  "SendWindowOffset c = getSendWindow c"

text \<open>
  \<open>UpdateHighestReceived\<close> returns a byte count and an error; \<open>None\<close> is Go's \<open>nil\<close>.
\<close>

definition UpdateHighestReceived ::
  "ByteCount \<Rightarrow> flowController \<Rightarrow> (ByteCount \<times> error option) \<times> flowController" where
  "UpdateHighestReceived byteOffset c =
     (if byteOffset = highestReceived c then ((0, None), c)
      else if byteOffset > highestReceived c then
        (let increment = byteOffset - highestReceived c
         in ((increment, None), c\<lparr>highestReceived := byteOffset\<rparr>))
      else ((0, Some ErrReceivedSmallerByteOffset), c))"

definition IncrementHighestReceived :: "ByteCount \<Rightarrow> flowController \<Rightarrow> flowController" where
  "IncrementHighestReceived increment c =
     c\<lparr>highestReceived := highestReceived c + increment\<rparr>"

definition AddBytesRead :: "ByteCount \<Rightarrow> flowController \<Rightarrow> flowController" where
  "AddBytesRead n c = c\<lparr>bytesRead := bytesRead c + n\<rparr>"

text \<open>
  \<open>maybeAdjustWindowIncrement\<close> reads the clock once: \<open>now\<close> is what \<open>time.Now()\<close>
  returns there. The debug log that follows the assignment changes no field and is
  left out.
\<close>

definition maybeAdjustWindowIncrement :: "Time \<Rightarrow> flowController \<Rightarrow> flowController" where
  "maybeAdjustWindowIncrement now c =
     (if IsZero (lastWindowUpdateTime c) then c
      else
        (let rtt = SmoothedRTT (rttStats c)
         in if rtt = 0 then c
            else
              (let timeSinceLastWindowUpdate = Sub now (lastWindowUpdateTime c)
               in if word_sle (2 * rtt) timeSinceLastWindowUpdate then c
                  else c\<lparr>receiveWindowIncrement :=
                           MinByteCount (2 * receiveWindowIncrement c)
                             (maxReceiveWindowIncrement c)\<rparr>)))"

text \<open>
  \<open>MaybeUpdateWindow\<close> reads the clock twice when an update is due: \<open>now1\<close> inside
  \<open>maybeAdjustWindowIncrement\<close> and \<open>now2\<close> for \<open>lastWindowUpdateTime\<close>. The local
  variable \<open>diff\<close> of the method is the function \<open>diff\<close>.
\<close>

definition diff :: "flowController \<Rightarrow> ByteCount" where
  "diff c = receiveWindow c - bytesRead c"

definition MaybeUpdateWindow ::
  "Time \<Rightarrow> Time \<Rightarrow> flowController \<Rightarrow> (bool \<times> ByteCount) \<times> flowController" where
  "MaybeUpdateWindow now1 now2 c =
     (if diff c < receiveWindowIncrement c div 2 then
        (let c1 = maybeAdjustWindowIncrement now1 c;
             c2 = c1\<lparr>lastWindowUpdateTime := now2\<rparr>;
             c3 = c2\<lparr>receiveWindow := bytesRead c2 + receiveWindowIncrement c2\<rparr>
         in ((True, receiveWindow c3), c3))
      else ((False, 0), c))"

definition CheckFlowControlViolation :: "flowController \<Rightarrow> bool" where
  "CheckFlowControlViolation c = (if highestReceived c > receiveWindow c then True else False)"

subsection \<open>Sequences of operations\<close>

text \<open>
  A controller is driven by calls of its nine exported methods. Between two calls the
  owner of the connection may also change what the two shared collaborators report:
  a new RTT sample, or newly negotiated parameters. \<open>exec\<close> is the controller after one
  such step, \<open>run\<close> the controller after a list of them, oldest first.
\<close>

datatype op =
    Op_AddBytesSent ByteCount
  | Op_UpdateSendWindow ByteCount
  | Op_SendWindowSize
  | Op_SendWindowOffset
  | Op_UpdateHighestReceived ByteCount
  | Op_IncrementHighestReceived ByteCount
  | Op_AddBytesRead ByteCount
  | Op_MaybeUpdateWindow Time Time
  | Op_CheckFlowControlViolation
  | Env_RTTStats RTTStats
  | Env_ConnectionParameters ConnectionParametersManager

fun exec :: "op \<Rightarrow> flowController \<Rightarrow> flowController" where
  "exec (Op_AddBytesSent n) c = AddBytesSent n c"
| "exec (Op_UpdateSendWindow newOffset) c = snd (UpdateSendWindow newOffset c)"
| "exec Op_SendWindowSize c = c"
| "exec Op_SendWindowOffset c = c"
| "exec (Op_UpdateHighestReceived byteOffset) c = snd (UpdateHighestReceived byteOffset c)"
| "exec (Op_IncrementHighestReceived increment) c = IncrementHighestReceived increment c"
| "exec (Op_AddBytesRead n) c = AddBytesRead n c"
| "exec (Op_MaybeUpdateWindow now1 now2) c = snd (MaybeUpdateWindow now1 now2 c)"
| "exec Op_CheckFlowControlViolation c = c"
| "exec (Env_RTTStats r) c = c\<lparr>rttStats := r\<rparr>"
| "exec (Env_ConnectionParameters p) c = c\<lparr>connectionParameters := p\<rparr>"

fun run :: "op list \<Rightarrow> flowController \<Rightarrow> flowController" where
  "run [] c = c"
| "run (x # xs) c = run xs (exec x c)"

text \<open>
  The results and the controllers of a sequence of \<open>UpdateSendWindow\<close> calls, one pair
  for each call.
\<close>

fun UpdateSendWindow_calls ::
  "ByteCount list \<Rightarrow> flowController \<Rightarrow> (bool \<times> flowController) list" where
  "UpdateSendWindow_calls [] c = []"
| "UpdateSendWindow_calls (x # xs) c =
     UpdateSendWindow x c # UpdateSendWindow_calls xs (snd (UpdateSendWindow x c))"

subsection \<open>Example collaborators\<close>

text \<open>
  Parameters and an RTT estimate for worked examples: a connection window of 1000 bytes
  and a stream window of 100 bytes, as in the scenarios of the specification;
  parameters whose initial stream window exceeds the negotiated maximum; and parameters
  at the top of the 64-bit range.
\<close>

definition example_parameters :: ConnectionParametersManager where
  "example_parameters =
     \<lparr>GetReceiveConnectionFlowControlWindow = 1000,
      GetMaxReceiveConnectionFlowControlWindow = 4000,
      GetReceiveStreamFlowControlWindow = 100,
      GetMaxReceiveStreamFlowControlWindow = 1000,
      GetSendConnectionFlowControlWindow = 300,
      GetSendStreamFlowControlWindow = 200\<rparr>"

definition inverted_parameters :: ConnectionParametersManager where
  "inverted_parameters =
     example_parameters\<lparr>GetReceiveStreamFlowControlWindow := 100,
                         GetMaxReceiveStreamFlowControlWindow := 10\<rparr>"

definition huge_parameters :: ConnectionParametersManager where
  "huge_parameters =
     example_parameters\<lparr>GetReceiveStreamFlowControlWindow := 0x8000000000000000,
                         GetMaxReceiveStreamFlowControlWindow := 0xFFFFFFFFFFFFFFFF\<rparr>"

definition example_rtt :: RTTStats where
  "example_rtt = \<lparr>SmoothedRTT = 50\<rparr>"

subsection \<open>Arithmetic of the machine types\<close>

lemma unat_twice: "2 * unat (x::64 word) < 2 ^ 64 \<Longrightarrow> unat (2 * x) = 2 * unat x"
  by (simp add: unat_word_ariths)

lemma le_twice: "2 * unat (x::64 word) < 2 ^ 64 \<Longrightarrow> x \<le> 2 * x"
  by (simp add: word_le_nat_alt unat_twice)

lemma MinByteCount_le: "MinByteCount a b \<le> b"
  by (auto simp add: MinByteCount_def)

lemma MinByteCount_ge: "x \<le> a \<Longrightarrow> x \<le> b \<Longrightarrow> x \<le> MinByteCount a b"
  by (auto simp add: MinByteCount_def)

lemma MinByteCount_min: "MinByteCount a b = min a b"
  by (auto simp add: MinByteCount_def min_def)

text \<open>
  Where the difference of two instants and twice the RTT fit into an \<open>int64\<close>, the
  comparison in \<open>maybeAdjustWindowIncrement\<close> is the comparison of the integers.
\<close>

lemma sint_Sub:
  assumes "- (2 ^ 63) \<le> t - u" and "t - u < 2 ^ 63"
  shows "sint (Sub t u) = t - u"
proof -
  have "sint (word_of_int (t - u) :: 64 word) = signed_take_bit 63 (t - u)"
    by (simp only: sint_sbintrunc') simp
  also have "\<dots> = t - u"
    using assms by (intro signed_take_bit_int_eq_self) simp_all
  finally show ?thesis
    using assms by (simp add: Sub_def del: of_int_diff)
qed

lemma sint_twice:
  assumes "- (2 ^ 62) \<le> sint (r::64 word)" and "sint r < 2 ^ 62"
  shows "sint (2 * r) = 2 * sint r"
proof -
  have "sint (2 * r) = signed_take_bit 63 (sint (2::64 word) * sint r)"
    by (simp add: sint_word_ariths)
  also have "sint (2::64 word) = 2"
    by simp
  also have "signed_take_bit 63 (2 * sint r) = 2 * sint r"
    using assms by (intro signed_take_bit_int_eq_self) simp_all
  finally show ?thesis .
qed

lemma elapsed_ge_twice_rtt:
  assumes "- (2 ^ 62) \<le> sint (r::64 word)" and "sint r < 2 ^ 62"
    and "- (2 ^ 63) \<le> t - u" and "t - u < 2 ^ 63"
  shows "word_sle (2 * r) (Sub t u) = (2 * sint r \<le> t - u)"
  using assms by (simp add: word_sle_eq sint_twice sint_Sub)

subsection \<open>What the auto-tuning step changes\<close>

lemma maybeAdjustWindowIncrement_frame:
  "maybeAdjustWindowIncrement now c =
     c\<lparr>receiveWindowIncrement := receiveWindowIncrement (maybeAdjustWindowIncrement now c)\<rparr>"
  by (simp add: maybeAdjustWindowIncrement_def Let_def)

lemma maybeAdjustWindowIncrement_fields:
  "maxReceiveWindowIncrement (maybeAdjustWindowIncrement now c) = maxReceiveWindowIncrement c"
  "bytesRead (maybeAdjustWindowIncrement now c) = bytesRead c"
  "receiveWindow (maybeAdjustWindowIncrement now c) = receiveWindow c"
  by (simp_all add: maybeAdjustWindowIncrement_def Let_def)

lemma maybeAdjustWindowIncrement_le_max:
  "receiveWindowIncrement c \<le> maxReceiveWindowIncrement c \<Longrightarrow>
   receiveWindowIncrement (maybeAdjustWindowIncrement now c) \<le> maxReceiveWindowIncrement c"
  by (simp add: maybeAdjustWindowIncrement_def Let_def MinByteCount_le)

lemma maybeAdjustWindowIncrement_ge:
  "receiveWindowIncrement c \<le> maxReceiveWindowIncrement c \<Longrightarrow>
   2 * unat (receiveWindowIncrement c) < 2 ^ 64 \<Longrightarrow>
   receiveWindowIncrement c \<le> receiveWindowIncrement (maybeAdjustWindowIncrement now c)"
  by (simp add: maybeAdjustWindowIncrement_def Let_def MinByteCount_ge le_twice)

subsection \<open>The increment stays below its ceiling\<close>

lemmas op_defs =
  AddBytesSent_def UpdateSendWindow_def UpdateHighestReceived_def
  IncrementHighestReceived_def AddBytesRead_def MaybeUpdateWindow_def

lemma exec_maxReceiveWindowIncrement:
  "maxReceiveWindowIncrement (exec x c) = maxReceiveWindowIncrement c"
  by (cases x) (simp_all add: op_defs Let_def maybeAdjustWindowIncrement_fields)

lemma exec_increment_le_max:
  "receiveWindowIncrement c \<le> maxReceiveWindowIncrement c \<Longrightarrow>
   receiveWindowIncrement (exec x c) \<le> maxReceiveWindowIncrement (exec x c)"
  by (cases x)
    (simp_all add: op_defs Let_def maybeAdjustWindowIncrement_fields
      maybeAdjustWindowIncrement_le_max)

lemma run_maxReceiveWindowIncrement:
  "maxReceiveWindowIncrement (run xs c) = maxReceiveWindowIncrement c"
  by (induction xs arbitrary: c) (simp_all add: exec_maxReceiveWindowIncrement)

lemma run_increment_le_max:
  "receiveWindowIncrement c \<le> maxReceiveWindowIncrement c \<Longrightarrow>
   receiveWindowIncrement (run xs c) \<le> maxReceiveWindowIncrement (run xs c)"
  by (induction xs arbitrary: c) (simp_all add: exec_increment_le_max)

lemma run_append: "run (xs @ ys) c = run ys (run xs c)"
  by (induction xs arbitrary: c) simp_all

subsection \<open>The receive window under one step\<close>

lemma MaybeUpdateWindow_receiveWindow_mono:
  assumes le: "receiveWindowIncrement c \<le> maxReceiveWindowIncrement c"
    and dbl: "2 * unat (receiveWindowIncrement c) < 2 ^ 64"
    and sum: "unat (bytesRead c) + unat (maxReceiveWindowIncrement c) < 2 ^ 64"
  shows "receiveWindow c \<le> receiveWindow (snd (MaybeUpdateWindow now1 now2 c))"
proof (cases "diff c < receiveWindowIncrement c div 2")
  case False
  then show ?thesis by (simp add: MaybeUpdateWindow_def)
next
  case due: True
  define i' where "i' = receiveWindowIncrement (maybeAdjustWindowIncrement now1 c)"
  have new: "receiveWindow (snd (MaybeUpdateWindow now1 now2 c)) = bytesRead c + i'"
    using due by (simp add: MaybeUpdateWindow_def Let_def i'_def maybeAdjustWindowIncrement_fields)
  have ge: "unat (receiveWindowIncrement c) \<le> unat i'"
    using maybeAdjustWindowIncrement_ge [OF le dbl, of now1] by (simp add: i'_def word_le_nat_alt)
  have "unat i' \<le> unat (maxReceiveWindowIncrement c)"
    using maybeAdjustWindowIncrement_le_max [OF le, of now1] by (simp add: i'_def word_le_nat_alt)
  with sum have "unat (bytesRead c) + unat i' < 2 ^ 64"
    by simp
  then have plus: "unat (bytesRead c + i') = unat (bytesRead c) + unat i'"
    by (simp add: unat_add_lem [THEN iffD1])
  have "unat (receiveWindow c) \<le> unat (bytesRead c) + unat i'"
  proof (cases "bytesRead c \<le> receiveWindow c")
    case True
    then have "unat (diff c) = unat (receiveWindow c) - unat (bytesRead c)"
      by (simp add: diff_def unat_sub)
    moreover have "unat (diff c) < unat (receiveWindowIncrement c) div 2"
      using due by (simp add: word_less_nat_alt unat_div)
    ultimately show ?thesis
      using ge by simp
  next
    case False
    then show ?thesis
      by (simp add: word_le_nat_alt)
  qed
  then show ?thesis
    by (simp add: new plus word_le_nat_alt)
qed

lemma exec_receiveWindow_mono:
  assumes "receiveWindowIncrement c \<le> maxReceiveWindowIncrement c"
    and "2 * unat (receiveWindowIncrement c) < 2 ^ 64"
    and "unat (bytesRead c) + unat (maxReceiveWindowIncrement c) < 2 ^ 64"
  shows "receiveWindow c \<le> receiveWindow (exec x c)"
  using assms
  by (cases x)
    (simp_all add: AddBytesSent_def UpdateSendWindow_def UpdateHighestReceived_def
      IncrementHighestReceived_def AddBytesRead_def Let_def MaybeUpdateWindow_receiveWindow_mono)

subsection \<open>Sequences of send-window announcements\<close>

lemma UpdateSendWindow_calls_length:
  "length (UpdateSendWindow_calls os c) = length os"
  by (induction os arbitrary: c) simp_all

lemma UpdateSendWindow_sendWindow:
  "sendWindow (snd (UpdateSendWindow x c)) = max (sendWindow c) x"
  by (auto simp add: UpdateSendWindow_def max_def)

text \<open>
  The \<open>k\<close>-th call runs on the controller the call before it left behind: the
  controllers before each call are the initial one followed by those the calls return.
\<close>

lemma UpdateSendWindow_calls_step:
  "k < length os \<Longrightarrow>
   UpdateSendWindow_calls os c ! k
     = UpdateSendWindow (os ! k) ((c # map snd (UpdateSendWindow_calls os c)) ! k)"
proof (induction os arbitrary: c k)
  case Nil
  then show ?case by simp
next
  case (Cons x xs)
  show ?case
  proof (cases k)
    case 0
    then show ?thesis by simp
  next
    case (Suc j)
    then have "j < length xs"
      using Cons.prems by simp
    from Cons.IH [OF this] show ?thesis
      by (simp add: Suc)
  qed
qed

lemma Max_insert_max:
  fixes a :: "'a::linorder"
  shows "finite S \<Longrightarrow> Max (insert (max a x) S) = Max (insert a (insert x S))"
  by (cases "S = {}") (simp_all add: max.assoc)

lemma UpdateSendWindow_calls_before:
  "k \<le> length os \<Longrightarrow>
   sendWindow ((c # map snd (UpdateSendWindow_calls os c)) ! k)
     = Max (insert (sendWindow c) (set (take k os)))"
proof (induction os arbitrary: c k)
  case Nil
  then show ?case by simp
next
  case (Cons x xs)
  show ?case
  proof (cases k)
    case 0
    then show ?thesis by simp
  next
    case (Suc j)
    then have j: "j \<le> length xs"
      using Cons.prems by simp
    have "Max (insert (max (sendWindow c) x) (set (take j xs)))
        = Max (insert (sendWindow c) (insert x (set (take j xs))))"
      by (rule Max_insert_max) simp
    with Cons.IH [OF j, of "snd (UpdateSendWindow x c)"] show ?thesis
      by (simp add: Suc UpdateSendWindow_sendWindow)
  qed
qed

lemma Max_insert_zero:
  "finite S \<Longrightarrow> S \<noteq> {} \<Longrightarrow> Max (insert (0::64 word) S) = Max S"
  by (simp add: max_def)

subsection \<open>The window update in one equation\<close>

text \<open>
  The result and the controller of \<open>MaybeUpdateWindow\<close>, in the arithmetic of
  \<open>uint64\<close>; and the threshold in the integers, where the subtraction does not wrap.
\<close>

lemma MaybeUpdateWindow_result:
  "MaybeUpdateWindow now1 now2 c =
     (if receiveWindow c - bytesRead c < receiveWindowIncrement c div 2 then
        ((True, bytesRead c + receiveWindowIncrement (maybeAdjustWindowIncrement now1 c)),
         (maybeAdjustWindowIncrement now1 c)
           \<lparr>lastWindowUpdateTime := now2,
            receiveWindow :=
              bytesRead c + receiveWindowIncrement (maybeAdjustWindowIncrement now1 c)\<rparr>)
      else ((False, 0), c))"
  by (simp add: MaybeUpdateWindow_def diff_def Let_def maybeAdjustWindowIncrement_fields)

lemma uint_remaining:
  assumes "bytesRead c \<le> receiveWindow c"
  shows "(receiveWindow c - bytesRead c < receiveWindowIncrement c div 2)
     = (uint (receiveWindow c) - uint (bytesRead c) < uint (receiveWindowIncrement c) div 2)"
proof -
  have "uint (receiveWindow c - bytesRead c) = uint (receiveWindow c) - uint (bytesRead c)"
    using assms by (simp add: uint_sub_if' word_le_def)
  moreover have "uint (receiveWindowIncrement c div 2) = uint (receiveWindowIncrement c) div 2"
    by (simp add: uint_div)
  ultimately show ?thesis
    by (simp add: word_less_def)
qed

subsection \<open>Evaluating the examples\<close>

lemmas example_defs =
  example_parameters_def inverted_parameters_def huge_parameters_def example_rtt_def
  newFlowController_def getSendWindow_def SendWindowSize_def SendWindowOffset_def
  CheckFlowControlViolation_def maybeAdjustWindowIncrement_def diff_def
  IsZero_def Sub_def MinByteCount_def word_sle_eq Let_def op_defs

section \<open>The claims\<close>

text \<open>
  C1 (amended). In every state with \<open>bytesRead \<le> receiveWindow\<close>, \<open>MaybeUpdateWindow\<close>
  reports an update as due exactly when, in the integers,
  \<open>receiveWindow - bytesRead < receiveWindowIncrement / 2\<close>. When it is due, the
  increment is the one the auto-tuning step leaves, the new \<open>receiveWindow\<close> is
  \<open>bytesRead\<close> plus that increment reduced modulo \<open>2^64\<close>, which is the sum itself
  whenever the sum is below \<open>2^64\<close>, and that new \<open>receiveWindow\<close> is the offset
  returned. When it is not due, the controller is unchanged.
\<close>

theorem MaybeUpdateWindow_threshold:
  assumes "bytesRead c \<le> receiveWindow c"
  shows "fst (fst (MaybeUpdateWindow now1 now2 c))
       = (uint (receiveWindow c) - uint (bytesRead c) < uint (receiveWindowIncrement c) div 2)
   \<and> (if fst (fst (MaybeUpdateWindow now1 now2 c)) then
        receiveWindowIncrement (snd (MaybeUpdateWindow now1 now2 c))
          = receiveWindowIncrement (maybeAdjustWindowIncrement now1 c)
        \<and> uint (receiveWindow (snd (MaybeUpdateWindow now1 now2 c)))
          = (uint (bytesRead c)
               + uint (receiveWindowIncrement (maybeAdjustWindowIncrement now1 c))) mod 2 ^ 64
        \<and> (uint (bytesRead c)
               + uint (receiveWindowIncrement (maybeAdjustWindowIncrement now1 c)) < 2 ^ 64
           \<longrightarrow> uint (receiveWindow (snd (MaybeUpdateWindow now1 now2 c)))
                 = uint (bytesRead c)
                   + uint (receiveWindowIncrement (maybeAdjustWindowIncrement now1 c)))
        \<and> snd (fst (MaybeUpdateWindow now1 now2 c))
          = receiveWindow (snd (MaybeUpdateWindow now1 now2 c))
      else snd (MaybeUpdateWindow now1 now2 c) = c)"
proof -
  have sum: "uint (bytesRead c + receiveWindowIncrement (maybeAdjustWindowIncrement now1 c))
      = (uint (bytesRead c)
           + uint (receiveWindowIncrement (maybeAdjustWindowIncrement now1 c))) mod 2 ^ 64"
    by (simp add: uint_word_ariths)
  have nonneg: "0 \<le> uint (bytesRead c)
           + uint (receiveWindowIncrement (maybeAdjustWindowIncrement now1 c))"
    by simp
  show ?thesis
    unfolding MaybeUpdateWindow_result uint_remaining [OF assms]
    using nonneg by (simp add: sum maybeAdjustWindowIncrement_fields del: uint_ge_0)
qed

text \<open>
  The end-to-end scenario of the specification: a stream controller with window 100
  and ceiling 1000, 60 bytes read; the update is due and announces offset 160. On the
  fresh controller, with the whole window remaining, no update is due.
\<close>

theorem MaybeUpdateWindow_threshold_witness:
  "bytesRead (AddBytesRead 60 (newFlowController 5 example_parameters example_rtt))
     \<le> receiveWindow (AddBytesRead 60 (newFlowController 5 example_parameters example_rtt))
   \<and> fst (MaybeUpdateWindow 1000 1001
          (AddBytesRead 60 (newFlowController 5 example_parameters example_rtt)))
     = (True, 160)
   \<and> uint (receiveWindow (snd (MaybeUpdateWindow 1000 1001
          (AddBytesRead 60 (newFlowController 5 example_parameters example_rtt))))) = 60 + 100
   \<and> snd (MaybeUpdateWindow 1000 1001 (newFlowController 5 example_parameters example_rtt))
     = newFlowController 5 example_parameters example_rtt"
  using MaybeUpdateWindow_threshold
    [of "AddBytesRead 60 (newFlowController 5 example_parameters example_rtt)" 1000 1001]
    MaybeUpdateWindow_threshold
    [of "newFlowController 5 example_parameters example_rtt" 1000 1001]
  by (simp add: example_defs)

text \<open>
  Read in the integers, the threshold and the new window fail in two states. With a
  window of 100, an increment of 100 and 101 bytes read, \<open>100 - 101 < 50\<close> but no
  update is reported. With \<open>bytesRead = receiveWindow = 2^64 - 5\<close> and an increment of
  \<open>2^63\<close>, the update is due and the new \<open>receiveWindow\<close> is \<open>2^63 - 5\<close>, not the sum.
\<close>

theorem MaybeUpdateWindow_threshold_fails:
  "fst (fst (MaybeUpdateWindow 1000 1001
      (AddBytesRead 101 (newFlowController 5 example_parameters example_rtt))))
     \<noteq> (uint (receiveWindow
            (AddBytesRead 101 (newFlowController 5 example_parameters example_rtt)))
          - uint (bytesRead
            (AddBytesRead 101 (newFlowController 5 example_parameters example_rtt)))
        < uint (receiveWindowIncrement
            (AddBytesRead 101 (newFlowController 5 example_parameters example_rtt))) div 2)
   \<and> fst (fst (MaybeUpdateWindow 2000 2000
        (run [Op_AddBytesRead 0x7FFFFFFFFFFFFFFB, Op_MaybeUpdateWindow 1000 1000,
              Op_AddBytesRead 0x8000000000000000]
           (newFlowController 5 huge_parameters example_rtt))))
   \<and> uint (receiveWindow (snd (MaybeUpdateWindow 2000 2000
        (run [Op_AddBytesRead 0x7FFFFFFFFFFFFFFB, Op_MaybeUpdateWindow 1000 1000,
              Op_AddBytesRead 0x8000000000000000]
           (newFlowController 5 huge_parameters example_rtt)))))
     \<noteq> uint (bytesRead
        (run [Op_AddBytesRead 0x7FFFFFFFFFFFFFFB, Op_MaybeUpdateWindow 1000 1000,
              Op_AddBytesRead 0x8000000000000000]
           (newFlowController 5 huge_parameters example_rtt)))
       + uint (receiveWindowIncrement (maybeAdjustWindowIncrement 2000
        (run [Op_AddBytesRead 0x7FFFFFFFFFFFFFFB, Op_MaybeUpdateWindow 1000 1000,
              Op_AddBytesRead 0x8000000000000000]
           (newFlowController 5 huge_parameters example_rtt))))"
  by (simp add: example_defs)

text \<open>
  C2. The claim: every subtraction of byte counts that could underflow is clamped, and
  in particular the remaining window \<open>receiveWindow - bytesRead\<close> of
  \<open>MaybeUpdateWindow\<close> does not wrap when \<open>bytesRead > receiveWindow\<close>, as
  \<open>SendWindowSize\<close> clamps to 0. The code guards the subtraction in \<open>SendWindowSize\<close>
  only: with a window of 100 bytes and 101 bytes read, \<open>diff\<close> is \<open>2^64 - 1\<close> and no
  update is reported, where the clamped value 0 is below half the increment.
\<close>

theorem MaybeUpdateWindow_diff_wraps:
  "receiveWindow (AddBytesRead 101 (newFlowController 5 example_parameters example_rtt))
     < bytesRead (AddBytesRead 101 (newFlowController 5 example_parameters example_rtt))
   \<and> diff (AddBytesRead 101 (newFlowController 5 example_parameters example_rtt))
     = 0xFFFFFFFFFFFFFFFF
   \<and> fst (MaybeUpdateWindow 1000 1001
        (AddBytesRead 101 (newFlowController 5 example_parameters example_rtt)))
     = (False, 0)
   \<and> (0::ByteCount) < receiveWindowIncrement
        (AddBytesRead 101 (newFlowController 5 example_parameters example_rtt)) div 2
   \<and> SendWindowSize (AddBytesSent 201 (newFlowController 5 example_parameters example_rtt)) = 0"
  by (simp add: example_defs)

text \<open>
  Whenever more has been read than the window allows, \<open>diff\<close> is the wrapped
  difference, which is never 0.
\<close>

lemma diff_wraps:
  assumes "receiveWindow c < bytesRead c"
  shows "unat (diff c) = 2 ^ 64 - (unat (bytesRead c) - unat (receiveWindow c))"
proof -
  have "unat (receiveWindow c) < unat (bytesRead c)"
    using assms by (simp add: word_less_nat_alt)
  moreover have "unat (bytesRead c) < 2 ^ 64"
    using unsigned_less [of "bytesRead c"] by simp
  ultimately show ?thesis
    by (simp add: diff_def unat_sub_if_size word_size)
qed

text \<open>
  C3 (amended). The auto-tuning step leaves \<open>receiveWindowIncrement\<close> unchanged when
  \<open>lastWindowUpdateTime\<close> is the zero value, when the smoothed RTT is zero, or when
  the time since the last window update is at least twice the smoothed RTT; otherwise
  the increment becomes the smaller of \<open>2 * receiveWindowIncrement\<close> (in \<open>uint64\<close>)
  and \<open>maxReceiveWindowIncrement\<close>. The step does not decrease the increment when the
  increment is at most \<open>maxReceiveWindowIncrement\<close> and its double is below \<open>2^64\<close>.
\<close>

theorem maybeAdjustWindowIncrement_growth:
  "receiveWindowIncrement (maybeAdjustWindowIncrement now c) =
     (if IsZero (lastWindowUpdateTime c) \<or> SmoothedRTT (rttStats c) = 0
         \<or> word_sle (2 * SmoothedRTT (rttStats c)) (Sub now (lastWindowUpdateTime c))
      then receiveWindowIncrement c
      else MinByteCount (2 * receiveWindowIncrement c) (maxReceiveWindowIncrement c))
   \<and> (receiveWindowIncrement c \<le> maxReceiveWindowIncrement c
        \<and> 2 * unat (receiveWindowIncrement c) < 2 ^ 64
      \<longrightarrow> receiveWindowIncrement c
            \<le> receiveWindowIncrement (maybeAdjustWindowIncrement now c))"
  by (simp add: maybeAdjustWindowIncrement_def Let_def MinByteCount_ge le_twice)

text \<open>
  A stream controller after its first window update at time 1000, with a smoothed RTT
  of 50: a second update at time 1001 doubles the increment from 100 to 200, one at
  time 1100 leaves it at 100.
\<close>

theorem maybeAdjustWindowIncrement_growth_witness:
  "receiveWindowIncrement
     (run [Op_AddBytesRead 60, Op_MaybeUpdateWindow 1000 1000]
        (newFlowController 5 example_parameters example_rtt))
     \<le> maxReceiveWindowIncrement
          (run [Op_AddBytesRead 60, Op_MaybeUpdateWindow 1000 1000]
             (newFlowController 5 example_parameters example_rtt))
   \<and> 2 * unat (receiveWindowIncrement
        (run [Op_AddBytesRead 60, Op_MaybeUpdateWindow 1000 1000]
           (newFlowController 5 example_parameters example_rtt))) < 2 ^ 64
   \<and> receiveWindowIncrement
        (run [Op_AddBytesRead 60, Op_MaybeUpdateWindow 1000 1000]
           (newFlowController 5 example_parameters example_rtt)) = 100
   \<and> receiveWindowIncrement (maybeAdjustWindowIncrement 1001
        (run [Op_AddBytesRead 60, Op_MaybeUpdateWindow 1000 1000]
           (newFlowController 5 example_parameters example_rtt))) = 200
   \<and> receiveWindowIncrement (maybeAdjustWindowIncrement 1100
        (run [Op_AddBytesRead 60, Op_MaybeUpdateWindow 1000 1000]
           (newFlowController 5 example_parameters example_rtt))) = 100"
  using maybeAdjustWindowIncrement_growth
    [of 1001 "run [Op_AddBytesRead 60, Op_MaybeUpdateWindow 1000 1000]
        (newFlowController 5 example_parameters example_rtt)"]
    maybeAdjustWindowIncrement_growth
    [of 1100 "run [Op_AddBytesRead 60, Op_MaybeUpdateWindow 1000 1000]
        (newFlowController 5 example_parameters example_rtt)"]
  by (simp add: example_defs)

text \<open>
  The step can decrease the increment. With an initial stream window of 100 above a
  negotiated maximum of 10, a second update within two RTTs cuts the increment from
  100 to 10. With an increment of \<open>2^63\<close> below a maximum of \<open>2^64 - 1\<close>, the doubling
  wraps and the increment falls to 0.
\<close>

theorem maybeAdjustWindowIncrement_decreases:
  "receiveWindowIncrement (maybeAdjustWindowIncrement 1001
      (run [Op_AddBytesRead 60, Op_MaybeUpdateWindow 1000 1000]
         (newFlowController 5 inverted_parameters example_rtt)))
     < receiveWindowIncrement
         (run [Op_AddBytesRead 60, Op_MaybeUpdateWindow 1000 1000]
            (newFlowController 5 inverted_parameters example_rtt))
   \<and> receiveWindowIncrement (maybeAdjustWindowIncrement 1001
        (run [Op_AddBytesRead 0x7FFFFFFFFFFFFFFB, Op_MaybeUpdateWindow 1000 1000]
           (newFlowController 5 huge_parameters example_rtt)))
     < receiveWindowIncrement
         (run [Op_AddBytesRead 0x7FFFFFFFFFFFFFFB, Op_MaybeUpdateWindow 1000 1000]
            (newFlowController 5 huge_parameters example_rtt))"
  by (simp add: example_defs)

text \<open>
  C4 (amended). A controller is constructed with \<open>receiveWindow\<close> and
  \<open>receiveWindowIncrement\<close> at the initial window of its scope and
  \<open>maxReceiveWindowIncrement\<close> at the negotiated maximum of its scope. When that initial
  window is at most that maximum, \<open>receiveWindowIncrement \<le> maxReceiveWindowIncrement\<close>
  holds after construction and after every sequence of operations.
\<close>

theorem increment_le_max_invariant:
  assumes "if sid = 0
           then GetReceiveConnectionFlowControlWindow p
                  \<le> GetMaxReceiveConnectionFlowControlWindow p
           else GetReceiveStreamFlowControlWindow p
                  \<le> GetMaxReceiveStreamFlowControlWindow p"
  shows "receiveWindow (newFlowController sid p r)
           = (if sid = 0 then GetReceiveConnectionFlowControlWindow p
              else GetReceiveStreamFlowControlWindow p)
    \<and> receiveWindowIncrement (newFlowController sid p r)
           = receiveWindow (newFlowController sid p r)
    \<and> maxReceiveWindowIncrement (newFlowController sid p r)
           = (if sid = 0 then GetMaxReceiveConnectionFlowControlWindow p
              else GetMaxReceiveStreamFlowControlWindow p)
    \<and> receiveWindowIncrement (run xs (newFlowController sid p r))
           \<le> maxReceiveWindowIncrement (run xs (newFlowController sid p r))"
proof -
  have "receiveWindowIncrement (newFlowController sid p r)
          \<le> maxReceiveWindowIncrement (newFlowController sid p r)"
    using assms by (simp add: newFlowController_def Let_def split: if_splits)
  then have "receiveWindowIncrement (run xs (newFlowController sid p r))
          \<le> maxReceiveWindowIncrement (run xs (newFlowController sid p r))"
    by (rule run_increment_le_max)
  then show ?thesis
    by (simp add: newFlowController_def Let_def)
qed

text \<open>
  The stream controller of the examples, driven through two window updates within two
  RTTs and a third one later: the increment ends at 200, below the ceiling 1000.
\<close>

theorem increment_le_max_invariant_witness:
  "GetReceiveStreamFlowControlWindow example_parameters
     \<le> GetMaxReceiveStreamFlowControlWindow example_parameters
   \<and> receiveWindowIncrement (newFlowController 5 example_parameters example_rtt) = 100
   \<and> maxReceiveWindowIncrement (newFlowController 5 example_parameters example_rtt) = 1000
   \<and> receiveWindowIncrement
        (run [Op_AddBytesRead 60, Op_MaybeUpdateWindow 1000 1000,
              Op_AddBytesRead 60, Op_MaybeUpdateWindow 1001 1001,
              Op_AddBytesRead 150, Op_MaybeUpdateWindow 2000 2000]
           (newFlowController 5 example_parameters example_rtt)) = 200
   \<and> receiveWindowIncrement
        (run [Op_AddBytesRead 60, Op_MaybeUpdateWindow 1000 1000,
              Op_AddBytesRead 60, Op_MaybeUpdateWindow 1001 1001,
              Op_AddBytesRead 150, Op_MaybeUpdateWindow 2000 2000]
           (newFlowController 5 example_parameters example_rtt))
     \<le> maxReceiveWindowIncrement
        (run [Op_AddBytesRead 60, Op_MaybeUpdateWindow 1000 1000,
              Op_AddBytesRead 60, Op_MaybeUpdateWindow 1001 1001,
              Op_AddBytesRead 150, Op_MaybeUpdateWindow 2000 2000]
           (newFlowController 5 example_parameters example_rtt))"
  using increment_le_max_invariant
    [of 5 example_parameters example_rtt
        "[Op_AddBytesRead 60, Op_MaybeUpdateWindow 1000 1000,
          Op_AddBytesRead 60, Op_MaybeUpdateWindow 1001 1001,
          Op_AddBytesRead 150, Op_MaybeUpdateWindow 2000 2000]"]
  by (simp add: example_defs)

text \<open>
  Construction checks nothing: from parameters whose initial stream window 100 exceeds
  the maximum 10, the increment is above its ceiling from the start.
\<close>

theorem increment_above_max_after_construction:
  "\<not> receiveWindowIncrement (newFlowController 5 inverted_parameters example_rtt)
       \<le> maxReceiveWindowIncrement (newFlowController 5 inverted_parameters example_rtt)"
  by (simp add: example_defs)

text \<open>
  C5. \<open>UpdateSendWindow\<close> is called with the offsets \<open>os\<close>, one after the other, on a
  freshly constructed controller, whose \<open>sendWindow\<close> is 0. After the \<open>k\<close>-th call the
  stored \<open>sendWindow\<close> is the maximum of the offsets seen so far; the call returns true
  exactly when its offset is above the \<open>sendWindow\<close> stored before it; and a call whose
  offset is not above it leaves the controller as it was.
\<close>

theorem UpdateSendWindow_calls_maximum:
  assumes "c0 = newFlowController sid p r"
    and "calls = UpdateSendWindow_calls os c0"
    and "before = c0 # map snd calls"
    and "k < length os"
  shows "sendWindow c0 = 0
    \<and> sendWindow (snd (calls ! k)) = Max (set (take (Suc k) os))
    \<and> fst (calls ! k) = (os ! k > sendWindow (before ! k))
    \<and> (os ! k \<le> sendWindow (before ! k) \<longrightarrow> snd (calls ! k) = before ! k)"
proof -
  have zero: "sendWindow c0 = 0"
    by (simp add: assms(1) newFlowController_def Let_def)
  have step: "calls ! k = UpdateSendWindow (os ! k) (before ! k)"
    using UpdateSendWindow_calls_step [OF assms(4), of c0] by (simp add: assms(2,3))
  have "snd (calls ! k) = before ! Suc k"
    using assms(4) by (simp add: assms(2,3) UpdateSendWindow_calls_length)
  then have "sendWindow (snd (calls ! k)) = Max (insert 0 (set (take (Suc k) os)))"
    using UpdateSendWindow_calls_before [of "Suc k" os c0] assms(4)
    by (simp add: assms(2,3) zero)
  also have "\<dots> = Max (set (take (Suc k) os))"
    using assms(4) by (intro Max_insert_zero) auto
  finally have "sendWindow (snd (calls ! k)) = Max (set (take (Suc k) os))" .
  then show ?thesis
    using zero by (auto simp add: step UpdateSendWindow_def)
qed

text \<open>
  The offsets 5, 3, 9, 9 on a fresh connection controller: the second call (index 1)
  is stale, returns false and keeps the window at 5; the third raises it to 9.
\<close>

theorem UpdateSendWindow_calls_maximum_witness:
  "(1::nat) < length [5, 3, 9, 9 :: ByteCount]
   \<and> map fst (UpdateSendWindow_calls [5, 3, 9, 9]
        (newFlowController 0 example_parameters example_rtt)) = [True, False, True, False]
   \<and> map (\<lambda>x. sendWindow (snd x)) (UpdateSendWindow_calls [5, 3, 9, 9]
        (newFlowController 0 example_parameters example_rtt)) = [5, 5, 9, 9]
   \<and> sendWindow (snd (UpdateSendWindow_calls [5, 3, 9, 9]
        (newFlowController 0 example_parameters example_rtt) ! 1))
      = Max (set (take (Suc 1) [5, 3, 9, 9]))"
  using UpdateSendWindow_calls_maximum
    [OF refl refl refl, of 1 "[5, 3, 9, 9]" 0 example_parameters example_rtt]
  by (simp add: example_defs)

text \<open>
  C6. \<open>UpdateHighestReceived\<close> is a trichotomy. An offset equal to \<open>highestReceived\<close>
  returns 0 and no error and changes nothing. A greater offset becomes the new
  \<open>highestReceived\<close>, and the call returns the difference of the two, which does not
  wrap, and no error. A smaller offset returns 0 and \<open>ErrReceivedSmallerByteOffset\<close>
  and changes no field.
\<close>

theorem UpdateHighestReceived_trichotomy:
  "(byteOffset = highestReceived c \<longrightarrow>
      UpdateHighestReceived byteOffset c = ((0, None), c))
   \<and> (byteOffset > highestReceived c \<longrightarrow>
      UpdateHighestReceived byteOffset c
        = ((byteOffset - highestReceived c, None), c\<lparr>highestReceived := byteOffset\<rparr>)
      \<and> unat (byteOffset - highestReceived c) = unat byteOffset - unat (highestReceived c))
   \<and> (byteOffset < highestReceived c \<longrightarrow>
      UpdateHighestReceived byteOffset c = ((0, Some ErrReceivedSmallerByteOffset), c))"
  by (auto simp add: UpdateHighestReceived_def Let_def unat_sub)

text \<open>
  A stream controller that has seen offset 40: offset 40 again, then 70, then 10.
\<close>

theorem UpdateHighestReceived_trichotomy_witness:
  "highestReceived (snd (UpdateHighestReceived 40
      (newFlowController 5 example_parameters example_rtt))) = 40
   \<and> fst (UpdateHighestReceived 40 (snd (UpdateHighestReceived 40
      (newFlowController 5 example_parameters example_rtt)))) = (0, None)
   \<and> fst (UpdateHighestReceived 70 (snd (UpdateHighestReceived 40
      (newFlowController 5 example_parameters example_rtt)))) = (30, None)
   \<and> highestReceived (snd (UpdateHighestReceived 70 (snd (UpdateHighestReceived 40
      (newFlowController 5 example_parameters example_rtt))))) = 70
   \<and> UpdateHighestReceived 10 (snd (UpdateHighestReceived 40
      (newFlowController 5 example_parameters example_rtt)))
     = ((0, Some ErrReceivedSmallerByteOffset), snd (UpdateHighestReceived 40
      (newFlowController 5 example_parameters example_rtt)))"
  using UpdateHighestReceived_trichotomy
    [of 40 "snd (UpdateHighestReceived 40 (newFlowController 5 example_parameters example_rtt))"]
    UpdateHighestReceived_trichotomy
    [of 70 "snd (UpdateHighestReceived 40 (newFlowController 5 example_parameters example_rtt))"]
    UpdateHighestReceived_trichotomy
    [of 10 "snd (UpdateHighestReceived 40 (newFlowController 5 example_parameters example_rtt))"]
  by (simp add: example_defs)

text \<open>
  C7. \<open>SendWindowSize\<close> returns \<open>max(0, effectiveSendWindow - bytesSent)\<close>, computed
  in the integers, where the effective send window is \<open>sendWindow\<close> when that is not 0,
  and otherwise the initial send window of the scope: that of the connection for stream
  id 0, that of a stream otherwise. \<open>SendWindowOffset\<close> returns the effective send
  window.
\<close>

theorem SendWindowSize_clamped:
  "(let effectiveSendWindow =
          (if sendWindow c \<noteq> 0 then sendWindow c
           else if streamID c = 0
             then GetSendConnectionFlowControlWindow (connectionParameters c)
             else GetSendStreamFlowControlWindow (connectionParameters c))
    in uint (SendWindowSize c) = max 0 (uint effectiveSendWindow - uint (bytesSent c))
       \<and> SendWindowOffset c = effectiveSendWindow)"
  by (auto simp add: SendWindowSize_def SendWindowOffset_def getSendWindow_def Let_def
      uint_sub_if' word_less_def word_le_def max_def)

text \<open>
  A stream controller with the initial send window 200: 50 bytes sent leave 150, 250
  bytes sent leave 0; once the peer has announced offset 400, 250 bytes sent leave 150.
\<close>

theorem SendWindowSize_clamped_witness:
  "SendWindowSize (AddBytesSent 50 (newFlowController 5 example_parameters example_rtt)) = 150
   \<and> SendWindowSize (AddBytesSent 250 (newFlowController 5 example_parameters example_rtt)) = 0
   \<and> SendWindowOffset (AddBytesSent 250 (newFlowController 5 example_parameters example_rtt))
      = 200
   \<and> uint (SendWindowSize (AddBytesSent 250 (snd (UpdateSendWindow 400
        (newFlowController 5 example_parameters example_rtt))))) = max 0 (400 - 250)
   \<and> SendWindowOffset (newFlowController 0 example_parameters example_rtt) = 300"
  using SendWindowSize_clamped
    [of "AddBytesSent 250 (snd (UpdateSendWindow 400
        (newFlowController 5 example_parameters example_rtt)))"]
  by (simp add: example_defs)

text \<open>
  C8. \<open>CheckFlowControlViolation\<close> returns true exactly when
  \<open>highestReceived > receiveWindow\<close>, and the call leaves the controller as it is.
  A controller constructed with an initial window of 1000 reports a violation after
  \<open>IncrementHighestReceived(1001)\<close> and none after \<open>IncrementHighestReceived(1000)\<close>.
\<close>

theorem CheckFlowControlViolation_iff:
  "CheckFlowControlViolation c = (highestReceived c > receiveWindow c)
   \<and> exec Op_CheckFlowControlViolation c = c
   \<and> ((if sid = 0 then GetReceiveConnectionFlowControlWindow p
        else GetReceiveStreamFlowControlWindow p) = 1000 \<longrightarrow>
        CheckFlowControlViolation (IncrementHighestReceived 1001 (newFlowController sid p r))
        \<and> \<not> CheckFlowControlViolation
              (IncrementHighestReceived 1000 (newFlowController sid p r)))"
  by (auto simp add: CheckFlowControlViolation_def IncrementHighestReceived_def
      newFlowController_def)

theorem CheckFlowControlViolation_iff_witness:
  "GetReceiveConnectionFlowControlWindow example_parameters = 1000
   \<and> CheckFlowControlViolation
        (IncrementHighestReceived 1001 (newFlowController 0 example_parameters example_rtt))
   \<and> \<not> CheckFlowControlViolation
        (IncrementHighestReceived 1000 (newFlowController 0 example_parameters example_rtt))"
  using CheckFlowControlViolation_iff
    [of "newFlowController 0 example_parameters example_rtt" 0 example_parameters example_rtt]
  by (simp add: example_parameters_def)

text \<open>
  C9 (amended). Let a controller be constructed from parameters whose initial receive
  window for its scope is at most the negotiated maximum for its scope, and let \<open>c\<close>
  be a state it reaches by any sequence of operations. If neither
  \<open>2 * receiveWindowIncrement\<close> nor \<open>bytesRead + maxReceiveWindowIncrement\<close> exceeds
  the 64-bit range in \<open>c\<close>, then after every operation \<open>receiveWindow\<close> is greater than
  or equal to its value in \<open>c\<close>.
\<close>

theorem receiveWindow_nondecreasing:
  assumes "if sid = 0
           then GetReceiveConnectionFlowControlWindow p
                  \<le> GetMaxReceiveConnectionFlowControlWindow p
           else GetReceiveStreamFlowControlWindow p
                  \<le> GetMaxReceiveStreamFlowControlWindow p"
    and "c = run xs (newFlowController sid p r)"
    and "2 * unat (receiveWindowIncrement c) < 2 ^ 64"
    and "unat (bytesRead c) + unat (maxReceiveWindowIncrement c) < 2 ^ 64"
  shows "receiveWindow c \<le> receiveWindow (exec x c)"
proof -
  have "receiveWindowIncrement (newFlowController sid p r)
          \<le> maxReceiveWindowIncrement (newFlowController sid p r)"
    using assms(1) by (simp add: newFlowController_def Let_def split: if_splits)
  then have "receiveWindowIncrement c \<le> maxReceiveWindowIncrement c"
    unfolding assms(2) by (rule run_increment_le_max)
  then show ?thesis
    using assms(3,4) by (rule exec_receiveWindow_mono)
qed

text \<open>
  The stream controller of the examples after 60 bytes read: the window update moves
  \<open>receiveWindow\<close> from 100 to 160.
\<close>

theorem receiveWindow_nondecreasing_witness:
  "GetReceiveStreamFlowControlWindow example_parameters
     \<le> GetMaxReceiveStreamFlowControlWindow example_parameters
   \<and> 2 * unat (receiveWindowIncrement
        (run [Op_AddBytesRead 60] (newFlowController 5 example_parameters example_rtt)))
      < 2 ^ 64
   \<and> unat (bytesRead
        (run [Op_AddBytesRead 60] (newFlowController 5 example_parameters example_rtt)))
      + unat (maxReceiveWindowIncrement
        (run [Op_AddBytesRead 60] (newFlowController 5 example_parameters example_rtt)))
      < 2 ^ 64
   \<and> receiveWindow
        (run [Op_AddBytesRead 60] (newFlowController 5 example_parameters example_rtt)) = 100
   \<and> receiveWindow (exec (Op_MaybeUpdateWindow 1000 1000)
        (run [Op_AddBytesRead 60] (newFlowController 5 example_parameters example_rtt))) = 160
   \<and> receiveWindow
        (run [Op_AddBytesRead 60] (newFlowController 5 example_parameters example_rtt))
      \<le> receiveWindow (exec (Op_MaybeUpdateWindow 1000 1000)
        (run [Op_AddBytesRead 60] (newFlowController 5 example_parameters example_rtt)))"
  using receiveWindow_nondecreasing
    [OF _ refl, of 5 example_parameters "[Op_AddBytesRead 60]" example_rtt
        "Op_MaybeUpdateWindow 1000 1000"]
  by (simp add: example_defs)

text \<open>
  Two reachable states in which \<open>MaybeUpdateWindow\<close> lowers \<open>receiveWindow\<close>. From an
  initial stream window of 100 above the maximum 10, a second update within two RTTs
  cuts the increment to 10 and the window falls from 160 to 121. With an increment of
  \<open>2^63\<close>, the sum \<open>bytesRead + receiveWindowIncrement\<close> of the second update wraps and
  the window falls from \<open>2^64 - 5\<close> to \<open>2^63 - 5\<close>.
\<close>

theorem receiveWindow_decreases:
  "receiveWindow (exec (Op_MaybeUpdateWindow 1001 1001)
      (run [Op_AddBytesRead 60, Op_MaybeUpdateWindow 1000 1000, Op_AddBytesRead 51]
         (newFlowController 5 inverted_parameters example_rtt)))
     < receiveWindow
         (run [Op_AddBytesRead 60, Op_MaybeUpdateWindow 1000 1000, Op_AddBytesRead 51]
            (newFlowController 5 inverted_parameters example_rtt))
   \<and> receiveWindow (exec (Op_MaybeUpdateWindow 2000 2000)
        (run [Op_AddBytesRead 0x7FFFFFFFFFFFFFFB, Op_MaybeUpdateWindow 1000 1000,
              Op_AddBytesRead 0x8000000000000000]
           (newFlowController 5 huge_parameters example_rtt)))
     < receiveWindow
         (run [Op_AddBytesRead 0x7FFFFFFFFFFFFFFB, Op_MaybeUpdateWindow 1000 1000,
               Op_AddBytesRead 0x8000000000000000]
            (newFlowController 5 huge_parameters example_rtt))"
  by (simp add: example_defs)

text \<open>
  C10. Whenever \<open>MaybeUpdateWindow\<close> returns false, the offset it returns is 0 and the
  controller is unchanged in every field, \<open>lastWindowUpdateTime\<close> and
  \<open>receiveWindowIncrement\<close> among them.
\<close>

theorem MaybeUpdateWindow_not_due:
  assumes "fst (fst (MaybeUpdateWindow now1 now2 c)) = False"
  shows "MaybeUpdateWindow now1 now2 c = ((False, 0), c)"
  using assms by (simp add: MaybeUpdateWindow_def Let_def split: if_splits)

text \<open>
  A stream controller after a first update at time 1000 and 20 more bytes read: 80 of
  the window remain, a call at time 1001 is not due and leaves the time of the last
  update at 1000 and the increment at 100.
\<close>

theorem MaybeUpdateWindow_not_due_witness:
  "fst (fst (MaybeUpdateWindow 1001 1001
      (run [Op_AddBytesRead 60, Op_MaybeUpdateWindow 1000 1000, Op_AddBytesRead 20]
         (newFlowController 5 example_parameters example_rtt)))) = False
   \<and> MaybeUpdateWindow 1001 1001
        (run [Op_AddBytesRead 60, Op_MaybeUpdateWindow 1000 1000, Op_AddBytesRead 20]
           (newFlowController 5 example_parameters example_rtt))
      = ((False, 0),
         run [Op_AddBytesRead 60, Op_MaybeUpdateWindow 1000 1000, Op_AddBytesRead 20]
           (newFlowController 5 example_parameters example_rtt))
   \<and> lastWindowUpdateTime (snd (MaybeUpdateWindow 1001 1001
        (run [Op_AddBytesRead 60, Op_MaybeUpdateWindow 1000 1000, Op_AddBytesRead 20]
           (newFlowController 5 example_parameters example_rtt)))) = 1000
   \<and> receiveWindowIncrement (snd (MaybeUpdateWindow 1001 1001
        (run [Op_AddBytesRead 60, Op_MaybeUpdateWindow 1000 1000, Op_AddBytesRead 20]
           (newFlowController 5 example_parameters example_rtt)))) = 100"
  using MaybeUpdateWindow_not_due
    [of 1001 1001
        "run [Op_AddBytesRead 60, Op_MaybeUpdateWindow 1000 1000, Op_AddBytesRead 20]
           (newFlowController 5 example_parameters example_rtt)"]
  by (simp add: example_defs)

end
